theory Spec2Isabelle
  imports Main
begin

section \<open>The actor framework of \<open>src/actors\<close>\<close>

text \<open>
  The development embeds the message type of \<open>message.py\<close>, the actor base class of
  \<open>base.py\<close>, the registry of \<open>system.py\<close> and the two concrete handlers of
  \<open>actors/command_actor.py\<close> and \<open>actors/web_search_actor.py\<close>.

  Python objects have reference semantics: the registry \<open>self.actors\<close> maps an identity
  to an actor \<^emph>\<open>instance\<close>, and the instance keeps living (with its mailbox, its
  \<open>_running\<close> flag and its dispatch loop) after its entry was deleted or overwritten.
  Actor instances therefore live in an explicit store \<open>objects\<close>, indexed by references,
  and the registry maps identities to references.

  All coroutines of the registry (\<open>spawn\<close>, \<open>send\<close>, \<open>stop\<close>, \<open>broadcast\<close>) await
  nothing but each other and \<open>Queue.put\<close> on an unbounded queue, so none of them is ever
  suspended: each runs to completion once called, and is a state transformer here.
\<close>

subsection \<open>Messages (\<open>message.py\<close>)\<close>

datatype MessageType =
    DEFAULT | REQUEST | RESPONSE | ERROR
  | SPAWN_SUBAGENT | EXECUTE_COMMAND | WEB_SEARCH | DELEGATE_TASK

text \<open>The \<open>value\<close> attribute of an enumeration member.\<close>

fun MessageType_value :: "MessageType \<Rightarrow> string" where
  "MessageType_value DEFAULT = ''default''"
| "MessageType_value REQUEST = ''request''"
| "MessageType_value RESPONSE = ''response''"
| "MessageType_value ERROR = ''error''"
| "MessageType_value SPAWN_SUBAGENT = ''spawn_subagent''"
| "MessageType_value EXECUTE_COMMAND = ''execute_command''"
| "MessageType_value WEB_SEARCH = ''web_search''"
| "MessageType_value DELEGATE_TASK = ''delegate_task''"

text \<open>
  The field \<open>message_type\<close> is annotated \<open>MessageType\<close>, but a dataclass checks no
  annotation, and \<open>base.py\<close> stores a plain \<open>str\<close> there. The field holds either.
\<close>

datatype Kind = Enum MessageType | Str string

text \<open>
  The result of running a command (\<open>CommandResult\<close> of \<open>executor/command.py\<close>) and
  the \<open>data\<close> dictionaries the two handlers build from their collaborator's answer.
\<close>

record ExecResult =
  stdout :: string
  stderr :: string
  exit_code :: int
  timed_out :: bool

datatype ResultData =
    NoData
  | CommandData string string int bool
  | SearchData "string list" string int

text \<open>
  \<open>payload: Any\<close>. The values the framework and its handlers put there or test for:
  a string, \<open>ExecuteCommand(command, timeout)\<close>, \<open>WebSearchQuery(query, max_results)\<close>,
  \<open>CommandResult(success, data, error)\<close> of \<open>message.py\<close>, and a dictionary with string
  keys whose values are strings or truth values. The timeout of \<open>ExecuteCommand\<close> is a
  number of seconds that no handler uses.
\<close>

datatype PyValue = PyStr string | PyBool bool

datatype Payload =
    PStr string
  | ExecuteCommand string nat
  | WebSearchQuery string int
  | CommandResult bool ResultData "string option"
  | PDict "(string \<times> PyValue) list"

type_synonym datetime = nat

record ActorMessage =
  msg_id :: string
  recipient :: string
  payload :: Payload
  message_type :: Kind
  sender :: "string option"
  reply_to :: "string option"
  correlation_id :: "string option"
  timestamp :: datetime

text \<open>The exceptions the framework itself raises.\<close>

datatype exn =
    TypeError
  | AttributeError
  | KeyError
  | RuntimeError
  | RecursionError
  | AsyncioTimeoutError

text \<open>
  The generated \<open>__init__\<close> of the dataclass. Every parameter may be left out by the
  caller (\<open>None\<close> below); \<open>id\<close>, \<open>recipient\<close> and \<open>payload\<close> have no default and
  Python raises \<open>TypeError\<close> when one of them is missing. \<open>utcnow\<close> is the clock
  reading the default factory of \<open>timestamp\<close> takes.
\<close>

record ActorMessage_args =
  arg_id :: "string option"
  arg_recipient :: "string option"
  arg_payload :: "Payload option"
  arg_message_type :: "Kind option"
  arg_sender :: "string option option"
  arg_reply_to :: "string option option"
  arg_correlation_id :: "string option option"
  arg_timestamp :: "datetime option"

definition no_args :: ActorMessage_args where
  "no_args = \<lparr>arg_id = None, arg_recipient = None, arg_payload = None,
     arg_message_type = None, arg_sender = None, arg_reply_to = None,
     arg_correlation_id = None, arg_timestamp = None\<rparr>"

definition default_to :: "'a \<Rightarrow> 'a option \<Rightarrow> 'a" where
  "default_to d x = (case x of None \<Rightarrow> d | Some v \<Rightarrow> v)"

definition ActorMessage_init :: "datetime \<Rightarrow> ActorMessage_args \<Rightarrow> exn + ActorMessage" where
  "ActorMessage_init utcnow a =
     (case (arg_id a, arg_recipient a, arg_payload a) of
        (Some i, Some r, Some p) \<Rightarrow>
          Inr \<lparr>msg_id = i, recipient = r, payload = p,
               message_type = default_to (Enum DEFAULT) (arg_message_type a),
               sender = default_to None (arg_sender a),
               reply_to = default_to None (arg_reply_to a),
               correlation_id = default_to None (arg_correlation_id a),
               timestamp = default_to utcnow (arg_timestamp a)\<rparr>
      | _ \<Rightarrow> Inl TypeError)"

text \<open>
  \<open>to_dict\<close>. The dictionary is built entry by entry; the last entry reads
  \<open>self.message_type.value\<close>, which a \<open>str\<close> does not have. \<open>isoformat\<close> is the
  formatting of the time stamp.
\<close>

datatype DictValue = VStr string | VNone | VPayload Payload

definition opt_value :: "string option \<Rightarrow> DictValue" where
  "opt_value x = (case x of None \<Rightarrow> VNone | Some v \<Rightarrow> VStr v)"

definition to_dict :: "(datetime \<Rightarrow> string) \<Rightarrow> ActorMessage \<Rightarrow> exn + (string \<times> DictValue) list" where
  "to_dict isoformat m =
     (case message_type m of
        Str s \<Rightarrow> Inl AttributeError
      | Enum t \<Rightarrow>
          Inr [(''id'', VStr (msg_id m)),
               (''sender'', opt_value (sender m)),
               (''recipient'', VStr (recipient m)),
               (''payload'', VPayload (payload m)),
               (''reply_to'', opt_value (reply_to m)),
               (''correlation_id'', opt_value (correlation_id m)),
               (''timestamp'', VStr (isoformat (timestamp m))),
               (''message_type'', VStr (MessageType_value t))])"

subsection \<open>Actors (\<open>base.py\<close>)\<close>

datatype ActorState = IDLE | RUNNING | STOPPED | ActorState_ERROR

text \<open>
  The fields of an \<open>Actor\<close> instance. \<open>system\<close> tells whether \<open>self.system\<close> is set:
  \<open>ActorSystem\<close> is a process-wide singleton, so a system that is set is the registry.
  \<open>children\<close> is a Python set; the list holds its elements once each, in the order
  \<open>list(self.children)\<close> yields them. \<open>mailbox\<close> is an \<open>asyncio.Queue()\<close> without
  bound, oldest envelope first.
\<close>

record Actor =
  actor_id :: string
  mailbox :: "ActorMessage list"
  system :: bool
  parent_id :: "string option"
  children :: "string list"
  state :: ActorState
  running :: bool

text \<open>
  \<open>Actor.__init__\<close>: \<open>actor_id or f"actor_{uuid.uuid4().hex[:8]}"\<close>, where an
  empty string counts as no identity. \<open>hex8\<close> is the random suffix.
\<close>

definition Actor_init :: "string \<Rightarrow> string option \<Rightarrow> Actor" where
  "Actor_init hex8 given =
     \<lparr>actor_id = (case given of None \<Rightarrow> ''actor_'' @ hex8
                   | Some i \<Rightarrow> if i = [] then ''actor_'' @ hex8 else i),
      mailbox = [], system = False, parent_id = None, children = [],
      state = IDLE, running = False\<rparr>"

subsection \<open>The registry (\<open>system.py\<close>)\<close>

type_synonym ref = nat

datatype level = Info | Warning | Error

text \<open>
  A call of a logger gives an event name and keyword arguments; an entry of the log holds
  the level, the event and the values of the keyword arguments in the order of the call.
\<close>

datatype log_value = LStr string | LNone | LBool bool | LKind Kind

type_synonym log_entry = "level \<times> string \<times> log_value list"

text \<open>
  \<open>objects\<close> is the store of actor instances, \<open>actors\<close> the dictionary
  \<open>self.actors\<close>, \<open>tasks\<close> the instances for which \<open>asyncio.create_task(actor._run())\<close>
  was called, and \<open>logger\<close> what was logged so far (the loggers of the registry and of
  the actors write to one log).
\<close>

record ActorSystem =
  objects :: "ref \<Rightarrow> Actor"
  actors :: "string \<rightharpoonup> ref"
  tasks :: "ref list"
  logger :: "log_entry list"

definition log :: "level \<Rightarrow> string \<Rightarrow> log_value list \<Rightarrow> ActorSystem \<Rightarrow> ActorSystem" where
  "log l event kv s = s\<lparr>logger := logger s @ [(l, event, kv)]\<rparr>"

definition update_actor :: "ref \<Rightarrow> (Actor \<Rightarrow> Actor) \<Rightarrow> ActorSystem \<Rightarrow> ActorSystem" where
  "update_actor r f s = s\<lparr>objects := (objects s)(r := f (objects s r))\<rparr>"

fun log_opt :: "string option \<Rightarrow> log_value" where
  "log_opt None = LNone"
| "log_opt (Some i) = LStr i"

text \<open>\<open>set.add\<close> and \<open>set.discard\<close> on the children.\<close>

definition set_add :: "string \<Rightarrow> string list \<Rightarrow> string list" where
  "set_add c cs = (if c \<in> set cs then cs else cs @ [c])"

definition set_discard :: "string \<Rightarrow> string list \<Rightarrow> string list" where
  "set_discard c cs = removeAll c cs"

text \<open>
  The block under \<open>if parent_id:\<close> in \<open>spawn\<close>. An \<open>Optional[str]\<close> is false when it
  is \<open>None\<close> or the empty string; an actor instance is always true.
\<close>

definition add_child :: "string option \<Rightarrow> string \<Rightarrow> ActorSystem \<Rightarrow> ActorSystem" where
  "add_child parent i s =
     (case parent of
        None \<Rightarrow> s
      | Some pid \<Rightarrow>
          if pid = [] then s
          else (case actors s pid of
                  None \<Rightarrow> s
                | Some p \<Rightarrow> update_actor p (\<lambda>a. a\<lparr>children := set_add i (children a)\<rparr>) s))"

text \<open>
  \<open>ActorSystem.spawn(actor, parent_id)\<close>, with \<open>r\<close> the reference of \<open>actor\<close>. It
  returns the actor's identity. There is no check that the identity is free.
\<close>

definition spawn :: "ref \<Rightarrow> string option \<Rightarrow> ActorSystem \<Rightarrow> string \<times> ActorSystem" where
  "spawn r parent s =
     (let i = actor_id (objects s r);
          s1 = s\<lparr>actors := (actors s)(i \<mapsto> r)\<rparr>;
          s2 = update_actor r (\<lambda>a. a\<lparr>system := True\<rparr>) s1;
          s3 = update_actor r (\<lambda>a. a\<lparr>parent_id := parent\<rparr>) s2;
          s4 = add_child parent i s3;
          s5 = s4\<lparr>tasks := tasks s4 @ [r]\<rparr>
      in (i, log Info ''actor_spawned'' [LStr i, log_opt parent] s5))"

text \<open>\<open>ActorSystem.send(message)\<close>.\<close>

definition send :: "ActorMessage \<Rightarrow> ActorSystem \<Rightarrow> ActorSystem" where
  "send m s =
     (case actors s (recipient m) of
        Some r \<Rightarrow> update_actor r (\<lambda>a. a\<lparr>mailbox := mailbox a @ [m]\<rparr>) s
      | None \<Rightarrow> log Warning ''actor_not_found'' [LStr (recipient m)] s)"

text \<open>\<open>ActorSystem.get_actor(actor_id)\<close>.\<close>

definition get_actor :: "ActorSystem \<Rightarrow> string \<Rightarrow> ref option" where
  "get_actor s i = actors s i"

text \<open>\<open>ActorSystem.broadcast(message, actor_ids)\<close>.\<close>

fun broadcast :: "ActorMessage \<Rightarrow> string list \<Rightarrow> ActorSystem \<Rightarrow> ActorSystem" where
  "broadcast m [] s = s"
| "broadcast m (i # is) s =
     (let msg_copy = \<lparr>msg_id = msg_id m, recipient = i, payload = payload m,
                       message_type = message_type m, sender = sender m,
                       reply_to = reply_to m, correlation_id = correlation_id m,
                       timestamp = timestamp m\<rparr>
      in broadcast m is (send msg_copy s))"

text \<open>
  \<open>ActorSystem.stop(actor_id)\<close> and \<open>Actor.stop()\<close> call each other, so every level of
  children takes two frames of the interpreter's stack, and a chain of children that is
  too long or never ends (an actor recorded among its own descendants) makes Python give
  up with \<open>RecursionError\<close>. The first argument is the number of frames that are left
  for these two methods: each call of one of them takes one. It is what remains of
  \<open>sys.getrecursionlimit()\<close> after the frames in use when \<open>stop\<close> is called and the
  frames that the calls inside the two methods (dictionary and set operations, logging)
  take for themselves. \<open>del self.actors[actor_id]\<close> raises \<open>KeyError\<close> when the key is
  gone.
\<close>

definition discard_child :: "string option \<Rightarrow> string \<Rightarrow> ActorSystem \<Rightarrow> ActorSystem" where
  "discard_child parent i s =
     (case parent of
        None \<Rightarrow> s
      | Some pid \<Rightarrow>
          if pid = [] then s
          else (case actors s pid of
                  None \<Rightarrow> s
                | Some p \<Rightarrow> update_actor p (\<lambda>a. a\<lparr>children := set_discard i (children a)\<rparr>) s))"

definition del_actor :: "string \<Rightarrow> ActorSystem \<Rightarrow> exn + ActorSystem" where
  "del_actor i s =
     (case actors s i of
        None \<Rightarrow> Inl KeyError
      | Some r \<Rightarrow> Inr (s\<lparr>actors := (actors s)(i := None)\<rparr>))"

fun stop :: "nat \<Rightarrow> string \<Rightarrow> ActorSystem \<Rightarrow> exn + ActorSystem"
  and Actor_stop :: "nat \<Rightarrow> ref \<Rightarrow> ActorSystem \<Rightarrow> exn + ActorSystem"
  and stop_children :: "nat \<Rightarrow> ref \<Rightarrow> string list \<Rightarrow> ActorSystem \<Rightarrow> exn + ActorSystem"
where
  "stop 0 i s = Inl RecursionError"
| "stop (Suc d) i s =
     (case actors s i of
        None \<Rightarrow> Inr s
      | Some r \<Rightarrow>
          (case Actor_stop d r s of
             Inl e \<Rightarrow> Inl e
           | Inr s1 \<Rightarrow>
               (case del_actor i (discard_child (parent_id (objects s1 r)) i s1) of
                  Inl e \<Rightarrow> Inl e
                | Inr s2 \<Rightarrow> Inr (log Info ''actor_stopped'' [LStr i] s2))))"
| "Actor_stop 0 r s = Inl RecursionError"
| "Actor_stop (Suc d) r s =
     (let s1 = update_actor r (\<lambda>a. a\<lparr>running := False\<rparr>) s
      in stop_children d r (children (objects s1 r)) s1)"
| "stop_children d r [] s = Inr s"
| "stop_children d r (c # cs) s =
     (if system (objects s r) then
        (case stop d c s of
           Inl e \<Rightarrow> Inl e
         | Inr s1 \<Rightarrow> stop_children d r cs s1)
      else stop_children d r cs s)"

subsection \<open>Sending from an actor: \<open>tell\<close> and \<open>ask\<close>\<close>

text \<open>\<open>Actor.tell(message)\<close>, with \<open>r\<close> the reference of \<open>self\<close>.\<close>

definition tell :: "ref \<Rightarrow> ActorMessage \<Rightarrow> ActorSystem \<Rightarrow> ActorSystem" where
  "tell r m s =
     (if system (objects s r) then send m s
      else log Error ''actor_no_system'' [LStr (actor_id (objects s r))] s)"

text \<open>
  \<open>Actor.ask(message, timeout)\<close>. The future is created in the call, and the only code
  that would complete it, \<open>reply_handler\<close>, is a local function that \<open>ask\<close> hands to
  nobody. While the caller is suspended in \<open>asyncio.wait_for(future, timeout)\<close> the
  other tasks run: \<open>during\<close> lists the envelopes they pass to \<open>ActorSystem.send\<close>
  before the timeout elapses, in order. \<open>wait_for\<close> returns as soon as the future holds
  a result and raises \<open>asyncio.TimeoutError\<close> when the time is over without one.
\<close>

fun wait_for :: "ActorMessage option \<Rightarrow> ActorMessage list \<Rightarrow> ActorSystem
    \<Rightarrow> ActorMessage option \<times> ActorSystem" where
  "wait_for (Some result) during s = (Some result, s)"
| "wait_for None [] s = (None, s)"
| "wait_for None (m # during) s = wait_for None during (send m s)"

definition ask :: "ref \<Rightarrow> ActorMessage \<Rightarrow> ActorMessage list \<Rightarrow> ActorSystem
    \<Rightarrow> (exn + ActorMessage) \<times> ActorSystem" where
  "ask r m during s =
     (let future = None in
      if system (objects s r) then
        (case wait_for future during (send m s) of
           (Some result, s1) \<Rightarrow> (Inr result, s1)
         | (None, s1) \<Rightarrow>
             (Inl AsyncioTimeoutError,
              log Error ''ask_timeout'' [LStr (actor_id (objects s1 r)), LStr (msg_id m)] s1))
      else (Inl RuntimeError, log Error ''actor_no_system'' [LStr (actor_id (objects s r))] s))"

text \<open>\<open>Actor.spawn_child(actor)\<close>, with \<open>c\<close> the reference of the new actor.\<close>

definition spawn_child :: "ref \<Rightarrow> ref \<Rightarrow> ActorSystem \<Rightarrow> (exn + string) \<times> ActorSystem" where
  "spawn_child r c s =
     (if system (objects s r) then
        (case spawn c (Some (actor_id (objects s r))) s of (i, s1) \<Rightarrow> (Inr i, s1))
      else (Inl RuntimeError, log Error ''actor_no_system'' [LStr (actor_id (objects s r))] s))"

subsection \<open>The dispatch loop (\<open>Actor._run\<close>)\<close>

text \<open>
  What a handler may raise, by the \<open>except\<close> clause of \<open>_run\<close> that catches it:
  \<open>asyncio.TimeoutError\<close>; any other \<open>Exception\<close>, with its \<open>str\<close>; an exception
  that is no \<open>Exception\<close> (such as \<open>asyncio.CancelledError\<close>), which no clause catches.
\<close>

datatype raised = TimeoutError_raised | Exception_raised string | BaseException_raised

text \<open>
  \<open>receive\<close> is abstract in \<open>Actor\<close>. A handler gets the reference of its actor and the
  envelope; it may change the whole state and may raise.
\<close>

type_synonym handler = "ref \<Rightarrow> ActorMessage \<Rightarrow> ActorSystem \<Rightarrow> raised option \<times> ActorSystem"

text \<open>
  \<open>Actor._handle_error(error)\<close>, with \<open>err = str(error)\<close>, \<open>hex8\<close> the random part
  of the envelope's id and \<open>utcnow\<close> the clock.
\<close>

definition child_error_message :: "string \<Rightarrow> datetime \<Rightarrow> string \<Rightarrow> string \<Rightarrow> string \<Rightarrow> ActorMessage" where
  "child_error_message hex8 utcnow self_id parent err =
     \<lparr>msg_id = ''error_'' @ hex8, recipient = parent,
      payload = PDict [(''actor_id'', PyStr self_id), (''error'', PyStr err)],
      message_type = Str ''child_error'', sender = Some self_id,
      reply_to = None, correlation_id = None, timestamp = utcnow\<rparr>"

definition handle_error :: "string \<Rightarrow> datetime \<Rightarrow> ref \<Rightarrow> string \<Rightarrow> ActorSystem \<Rightarrow> ActorSystem" where
  "handle_error hex8 utcnow r err s =
     (let s1 = log Error ''actor_error'' [LStr (actor_id (objects s r)), LStr err] s;
          s2 = update_actor r (\<lambda>a. a\<lparr>state := ActorState_ERROR\<rparr>) s1
      in case parent_id (objects s2 r) of
           None \<Rightarrow> s2
         | Some p \<Rightarrow>
             if p \<noteq> [] \<and> system (objects s2 r)
             then send (child_error_message hex8 utcnow (actor_id (objects s2 r)) p err) s2
             else s2)"

text \<open>
  \<open>self.mailbox.get()\<close> under \<open>asyncio.wait_for(..., timeout=1.0)\<close>: the oldest
  envelope, or nothing when the queue stays empty for the second.
\<close>

definition mailbox_get :: "ref \<Rightarrow> ActorSystem \<Rightarrow> ActorMessage option \<times> ActorSystem" where
  "mailbox_get r s =
     (case mailbox (objects s r) of
        [] \<Rightarrow> (None, s)
      | m # ms \<Rightarrow> (Some m, update_actor r (\<lambda>a. a\<lparr>mailbox := ms\<rparr>) s))"

text \<open>The two assignments before the loop of \<open>_run\<close>.\<close>

definition run_start :: "ref \<Rightarrow> ActorSystem \<Rightarrow> ActorSystem" where
  "run_start r s =
     update_actor r (\<lambda>a. a\<lparr>state := RUNNING\<rparr>) (update_actor r (\<lambda>a. a\<lparr>running := True\<rparr>) s)"

text \<open>
  One test of \<open>while self._running\<close> with the body that follows it. The result says
  whether the loop goes on, has ended (then the state is \<open>STOPPED\<close>) or was left by an
  exception that \<open>_run\<close> does not catch.
\<close>

datatype loop_status = Looping | Finished | Crashed

definition run_iteration :: "handler \<Rightarrow> string \<Rightarrow> datetime \<Rightarrow> ref \<Rightarrow> ActorSystem
    \<Rightarrow> loop_status \<times> ActorSystem" where
  "run_iteration receive hex8 utcnow r s =
     (if running (objects s r) then
        (case mailbox_get r s of
           (None, s1) \<Rightarrow> (Looping, s1)
         | (Some m, s1) \<Rightarrow>
             (case receive r m s1 of
                (None, s2) \<Rightarrow> (Looping, s2)
              | (Some TimeoutError_raised, s2) \<Rightarrow> (Looping, s2)
              | (Some (Exception_raised err), s2) \<Rightarrow> (Looping, handle_error hex8 utcnow r err s2)
              | (Some BaseException_raised, s2) \<Rightarrow> (Crashed, s2)))
      else (Finished, update_actor r (\<lambda>a. a\<lparr>state := STOPPED\<rparr>) s))"

text \<open>
  Interleavings of senders and dispatch loops: \<open>Send m\<close> is a call of
  \<open>ActorSystem.send\<close> by any task, \<open>Get r\<close> is the \<open>mailbox.get()\<close> of the dispatch
  loop of the actor at \<open>r\<close>, whose result the loop passes to \<open>receive\<close>.
  \<open>received b evs s\<close> lists the envelopes the handler of the actor at \<open>b\<close> is given
  during \<open>evs\<close>, in order, with the state at the end.
\<close>

datatype event = Send ActorMessage | Get ref



subsection \<open>The concrete handlers\<close>

text \<open>
  \<open>CommandActor\<close>. \<open>is_safe\<close> is \<open>SafetyAgent.is_safe\<close>; \<open>execute\<close> is
  \<open>CommandExecutor.execute\<close>, which returns a result or raises (\<open>Inl\<close> the \<open>str\<close> of
  the exception).
\<close>

definition reply_message :: "string \<Rightarrow> datetime \<Rightarrow> string \<Rightarrow> string \<Rightarrow> Payload
    \<Rightarrow> string option \<Rightarrow> ActorMessage" where
  "reply_message hex8 utcnow self_id to result corr =
     \<lparr>msg_id = ''reply_'' @ hex8, recipient = to, payload = result,
      message_type = Enum RESPONSE, sender = Some self_id,
      reply_to = None, correlation_id = corr, timestamp = utcnow\<rparr>"

definition send_result :: "string \<Rightarrow> datetime \<Rightarrow> ref \<Rightarrow> ActorMessage \<Rightarrow> Payload
    \<Rightarrow> ActorSystem \<Rightarrow> ActorSystem" where
  "send_result hex8 utcnow r m result s =
     (case reply_to m of
        None \<Rightarrow> log Info ''no_reply_address'' [LStr (msg_id m)] s
      | Some to \<Rightarrow>
          if to = [] then log Info ''no_reply_address'' [LStr (msg_id m)] s
          else tell r (reply_message hex8 utcnow (actor_id (objects s r)) to result
                         (correlation_id m)) s)"

definition handle_execute_command :: "(string \<Rightarrow> bool \<times> string) \<Rightarrow> (string \<Rightarrow> string + ExecResult)
    \<Rightarrow> string \<Rightarrow> datetime \<Rightarrow> ref \<Rightarrow> ActorMessage \<Rightarrow> ActorSystem \<Rightarrow> ActorSystem" where
  "handle_execute_command is_safe execute hex8 utcnow r m s =
     (case payload m of
        ExecuteCommand command_str timeout \<Rightarrow>
          (let result =
             (case is_safe command_str of
                (False, reason) \<Rightarrow>
                  CommandResult False NoData
                    (Some (''Command rejected by safety agent. Reason: '' @ reason))
              | (True, reason) \<Rightarrow>
                  (case execute command_str of
                     Inr rd \<Rightarrow>
                       CommandResult True
                         (CommandData (stdout rd) (stderr rd) (exit_code rd) (timed_out rd)) None
                   | Inl e \<Rightarrow>
                       CommandResult False NoData (Some (''Command execution failed: '' @ e))))
           in send_result hex8 utcnow r m result s)
      | _ \<Rightarrow> log Error ''invalid_payload'' [LStr (actor_id (objects s r))] s)"

definition CommandActor_receive :: "(string \<Rightarrow> bool \<times> string) \<Rightarrow> (string \<Rightarrow> string + ExecResult)
    \<Rightarrow> string \<Rightarrow> datetime \<Rightarrow> handler" where
  "CommandActor_receive is_safe execute hex8 utcnow r m s =
     (if message_type m = Enum EXECUTE_COMMAND
      then (None, handle_execute_command is_safe execute hex8 utcnow r m s)
      else (None, log Warning ''unknown_message_type''
                    [LStr (actor_id (objects s r)), LKind (message_type m)] s))"

text \<open>
  \<open>WebSearchActor\<close>. \<open>search\<close> is \<open>WebSearchExecutor.search\<close>, which returns the
  results or raises.
\<close>

definition handle_web_search :: "(string \<Rightarrow> string + string list)
    \<Rightarrow> string \<Rightarrow> datetime \<Rightarrow> ref \<Rightarrow> ActorMessage \<Rightarrow> ActorSystem \<Rightarrow> ActorSystem" where
  "handle_web_search search hex8 utcnow r m s =
     (case payload m of
        WebSearchQuery query max_results \<Rightarrow>
          (let result =
             (case search query of
                Inr results \<Rightarrow> CommandResult True (SearchData results query max_results) None
              | Inl e \<Rightarrow> CommandResult False NoData (Some (''Web search failed: '' @ e)))
           in send_result hex8 utcnow r m result s)
      | _ \<Rightarrow> log Error ''invalid_payload'' [LStr (actor_id (objects s r))] s)"

definition WebSearchActor_receive :: "(string \<Rightarrow> string + string list)
    \<Rightarrow> string \<Rightarrow> datetime \<Rightarrow> handler" where
  "WebSearchActor_receive search hex8 utcnow r m s =
     (if message_type m = Enum WEB_SEARCH
      then (None, handle_web_search search hex8 utcnow r m s)
      else (None, log Warning ''unknown_message_type''
                    [LStr (actor_id (objects s r)), LKind (message_type m)] s))"

text \<open>
  \<open>SubAgent\<close> of \<open>agents/sub_agent.py\<close>. \<open>generate\<close> is \<open>provider.generate\<close> on the
  system prompt and the text of the task: it returns the content and the model of the
  answer, or raises (\<open>Inl\<close> the \<open>str\<close> of the exception). \<open>py_str\<close> is \<open>str\<close> on a
  payload. \<open>dict.get(key, default)\<close> is \<open>dict_get\<close>; \<open>quoted\<close> puts a name between
  apostrophes, as the messages of Python's exceptions do.
\<close>

definition quoted :: "string \<Rightarrow> string" where
  "quoted x = CHR 0x27 # x @ [CHR 0x27]"

definition dict_get :: "(string \<times> PyValue) list \<Rightarrow> string \<Rightarrow> PyValue \<Rightarrow> PyValue" where
  "dict_get kvs key dflt = (case map_of kvs key of None \<Rightarrow> dflt | Some v \<Rightarrow> v)"

text \<open>
  \<open>replies\<close> is the test \<open>message.reply_to and self.system\<close>; where it holds,
  \<open>default_to [] (reply_to m)\<close> is the string \<open>message.reply_to\<close>. \<open>task_failed\<close> is
  the \<open>except\<close> branch of \<open>_handle_delegated_task\<close>, with \<open>err = str(e)\<close>.
\<close>

definition replies :: "ref \<Rightarrow> ActorMessage \<Rightarrow> ActorSystem \<Rightarrow> bool" where
  "replies r m s \<longleftrightarrow> reply_to m \<noteq> None \<and> reply_to m \<noteq> Some [] \<and> system (objects s r)"

definition task_failed :: "(Payload \<Rightarrow> string) \<Rightarrow> string \<Rightarrow> datetime \<Rightarrow> ref \<Rightarrow> ActorMessage
    \<Rightarrow> string \<Rightarrow> ActorSystem \<Rightarrow> ActorSystem" where
  "task_failed py_str hex8 utcnow r m err s =
     (let s1 = log Error ''task_processing_error'' [LStr (actor_id (objects s r)), LStr err] s
      in if replies r m s1 then
           send \<lparr>msg_id = ''error_'' @ hex8, recipient = default_to [] (reply_to m),
                 payload = PDict [(''task'', PyStr (py_str (payload m))), (''error'', PyStr err),
                                  (''success'', PyBool False)],
                 message_type = Enum ERROR, sender = Some (actor_id (objects s1 r)),
                 reply_to = None, correlation_id = Some (msg_id m), timestamp = utcnow\<rparr> s1
         else s1)"

text \<open>
  \<open>_handle_delegated_task\<close>. The text of the task is the entry \<open>"task"\<close> of a
  dictionary, else its entry \<open>"content"\<close>, else \<open>str\<close> of the payload; the slice
  \<open>task_text[:50]\<close> raises \<open>TypeError\<close> when the entry is a truth value.
\<close>

definition handle_delegated_task :: "string \<Rightarrow> (string \<Rightarrow> string \<Rightarrow> string + string \<times> string)
    \<Rightarrow> (Payload \<Rightarrow> string) \<Rightarrow> string \<Rightarrow> datetime \<Rightarrow> ref \<Rightarrow> ActorMessage
    \<Rightarrow> ActorSystem \<Rightarrow> ActorSystem" where
  "handle_delegated_task system_prompt generate py_str hex8 utcnow r m s =
     (let task = payload m;
          task_text = (case task of
                         PDict kvs \<Rightarrow>
                           dict_get kvs ''task'' (dict_get kvs ''content'' (PyStr (py_str task)))
                       | _ \<Rightarrow> PyStr (py_str task))
      in case task_text of
           PyBool b \<Rightarrow>
             task_failed py_str hex8 utcnow r m (quoted ''bool'' @ '' object is not subscriptable'') s
         | PyStr text \<Rightarrow>
             (let s1 = log Info ''processing_delegated_task''
                         [LStr (actor_id (objects s r)), LStr (take 50 text)] s
              in case generate system_prompt text of
                   Inl err \<Rightarrow> task_failed py_str hex8 utcnow r m err s1
                 | Inr (content, model) \<Rightarrow>
                     if replies r m s1 then
                       log Info ''task_result_sent''
                         [LStr (actor_id (objects s1 r)), log_opt (reply_to m)]
                         (send \<lparr>msg_id = ''result_'' @ hex8,
                                 recipient = default_to [] (reply_to m),
                                 payload = PDict [(''task'', PyStr text), (''result'', PyStr content),
                                                  (''model'', PyStr model), (''success'', PyBool True)],
                                 message_type = Enum RESPONSE,
                                 sender = Some (actor_id (objects s1 r)),
                                 reply_to = None, correlation_id = Some (msg_id m),
                                 timestamp = utcnow\<rparr> s1)
                     else
                       log Warning ''no_reply_to_address''
                         [LStr (actor_id (objects s1 r)),
                          LBool (reply_to m \<noteq> None \<and> reply_to m \<noteq> Some []),
                          LBool (system (objects s1 r))] s1))"

text \<open>
  \<open>SubAgent.receive\<close>. Its test is
  \<open>message.message_type == MessageType.DELEGATE_TASK or message.message_type.value == "delegate_task"\<close>:
  when the first comparison fails the second operand reads \<open>.value\<close>, which a \<open>str\<close>
  does not have, and \<open>AttributeError\<close> leaves the handler.
\<close>

definition SubAgent_receive :: "string \<Rightarrow> (string \<Rightarrow> string \<Rightarrow> string + string \<times> string)
    \<Rightarrow> (Payload \<Rightarrow> string) \<Rightarrow> string \<Rightarrow> datetime \<Rightarrow> handler" where
  "SubAgent_receive system_prompt generate py_str hex8 utcnow r m s =
     (if message_type m = Enum DELEGATE_TASK
      then (None, handle_delegated_task system_prompt generate py_str hex8 utcnow r m s)
      else (case message_type m of
              Str k \<Rightarrow> (Some (Exception_raised (quoted ''str'' @ '' object has no attribute '' @ quoted ''value'')), s)
            | Enum t \<Rightarrow>
                if MessageType_value t = ''delegate_task''
                then (None, handle_delegated_task system_prompt generate py_str hex8 utcnow r m s)
                else (None, log Warning ''unsupported_message_type''
                              [LKind (message_type m), LStr (actor_id (objects s r))] s)))"

subsection \<open>The supervision relation\<close>









subsection \<open>Example systems\<close>

text \<open>
  \<open>ActorSystem.__init__\<close> leaves the registry empty; \<open>new_system\<close> is that state over a
  given store of actor instances. \<open>instances names\<close> is a store whose first instances
  were made by \<open>Actor(name)\<close> for the given names.
\<close>

definition new_system :: "(ref \<Rightarrow> Actor) \<Rightarrow> ActorSystem" where
  "new_system objs = \<lparr>objects = objs, actors = Map.empty, tasks = [], logger = []\<rparr>"

definition instances :: "string list \<Rightarrow> ref \<Rightarrow> Actor" where
  "instances names r = Actor_init ''00000000'' (if r < length names then Some (names ! r) else None)"

definition system_AB :: ActorSystem where
  "system_AB = snd (spawn 1 None (snd (spawn 0 None (new_system (instances [''A'', ''B''])))))"

definition hello :: "string \<Rightarrow> ActorMessage" where
  "hello to = \<lparr>msg_id = ''m1'', recipient = to, payload = PStr ''hello'',
     message_type = Enum REQUEST, sender = Some ''A'', reply_to = None,
     correlation_id = None, timestamp = 0\<rparr>"

text \<open>
  Two instances made with the same identity \<open>"A"\<close>, the first of them spawned; and a
  parent \<open>"P"\<close> with its child \<open>"C"\<close>.
\<close>

definition system_A_twice :: ActorSystem where
  "system_A_twice = snd (spawn 0 None (new_system (instances [''A'', ''A''])))"

definition system_PC :: ActorSystem where
  "system_PC = snd (spawn 1 (Some ''P'') (snd (spawn 0 None (new_system (instances [''P'', ''C''])))))"

text \<open>
  The scenario of a command request: actor \<open>"A"\<close> and the actor \<open>"caller"\<close> that
  is to get the reply; the request \<open>"m1"\<close> carries no \<open>correlation_id\<close>, as every
  request the repository builds. The collaborators always succeed.
\<close>

definition system_A_caller :: ActorSystem where
  "system_A_caller = snd (spawn 1 None (snd (spawn 0 None (new_system (instances [''A'', ''caller''])))))"

definition request_m1 :: ActorMessage where
  "request_m1 = \<lparr>msg_id = ''m1'', recipient = ''A'', payload = ExecuteCommand ''echo hi'' 30,
     message_type = Enum EXECUTE_COMMAND, sender = None, reply_to = Some ''caller'',
     correlation_id = None, timestamp = 0\<rparr>"

definition search_m1 :: ActorMessage where
  "search_m1 = \<lparr>msg_id = ''m1'', recipient = ''A'', payload = WebSearchQuery ''actors'' 5,
     message_type = Enum WEB_SEARCH, sender = None, reply_to = Some ''caller'',
     correlation_id = None, timestamp = 0\<rparr>"

definition always_safe :: "string \<Rightarrow> bool \<times> string" where
  "always_safe c = (True, ''Safe'')"

definition echo_hi :: "string \<Rightarrow> string + ExecResult" where
  "echo_hi c = Inr \<lparr>stdout = ''hi'', stderr = [], exit_code = 0, timed_out = False\<rparr>"

definition one_result :: "string \<Rightarrow> string + string list" where
  "one_result q = Inr [''https://example.org'']"

text \<open>
  An \<open>ask\<close> of \<open>"A"\<close> to \<open>"B"\<close> and the reply that \<open>"B"\<close> would send: addressed to
  \<open>"A"\<close>, with the id of the request as \<open>correlation_id\<close>.
\<close>

definition ask_m1 :: ActorMessage where
  "ask_m1 = \<lparr>msg_id = ''m1'', recipient = ''B'', payload = PStr ''ping'',
     message_type = Enum REQUEST, sender = Some ''A'', reply_to = Some ''A'',
     correlation_id = None, timestamp = 0\<rparr>"

definition reply_m1 :: ActorMessage where
  "reply_m1 = \<lparr>msg_id = ''r1'', recipient = ''A'', payload = PStr ''pong'',
     message_type = Enum RESPONSE, sender = Some ''B'', reply_to = None,
     correlation_id = Some ''m1'', timestamp = 1\<rparr>"

text \<open>
  The child \<open>"C"\<close> of \<open>"P"\<close> with its loop started and one envelope waiting, and two
  handlers that fail: one raises \<open>asyncio.TimeoutError\<close>, the other
  \<open>Exception("boom")\<close>.
\<close>

definition system_PC_busy :: ActorSystem where
  "system_PC_busy = send (hello ''C'') (run_start 1 system_PC)"

definition raise_timeout :: handler where
  "raise_timeout r m s = (Some TimeoutError_raised, s)"

definition raise_exception :: handler where
  "raise_exception r m s = (Some (Exception_raised ''boom''), s)"




text \<open>
  A family: \<open>"P"\<close> with child \<open>"C"\<close> with child \<open>"G"\<close>, beside \<open>"X"\<close>, which is its own
  child. The four dispatch tasks have run their first step, so every loop is at its test
  of \<open>_running\<close>. \<open>family_rank\<close> goes down from \<open>"C"\<close> to \<open>"G"\<close>.
\<close>

definition family_spawned :: ActorSystem where
  "family_spawned = snd (spawn 3 (Some ''X'') (snd (spawn 2 (Some ''C'') (snd (spawn 1 (Some ''P'')
     (snd (spawn 0 None (new_system (instances [''P'', ''C'', ''G'', ''X''])))))))))"

definition system_family :: ActorSystem where
  "system_family = run_start 3 (run_start 2 (run_start 1 (run_start 0 family_spawned)))"



text \<open>A provider that always answers, and a rendering of payloads.\<close>

definition answer :: "string \<Rightarrow> string \<Rightarrow> string + string \<times> string" where
  "answer system_prompt task = Inr (''done'', ''some-model'')"

definition show_payload :: "Payload \<Rightarrow> string" where
  "show_payload p = ''payload''"

section \<open>Properties\<close>

lemmas eval_defs = spawn_def send_def Let_def update_actor_def log_def add_child_def instances_def
  Actor_init_def new_system_def set_add_def hello_def system_AB_def

lemmas eval_PC = system_PC_def eval_defs

subsection \<open>Sending\<close>

text \<open>
  Claim C7. When the recipient of an envelope is not in the registry, \<open>send\<close> only
  appends a warning to the log: the registry, every actor instance (so every mailbox) and
  the tasks stay as they are, and nothing is raised (\<open>send\<close> has no failure value).
  When the recipient is registered, \<open>send\<close> appends the envelope to the mailbox of
  the registered instance and changes nothing else.
\<close>

theorem send_registered_or_dropped:
  "(actors s (recipient m) = None \<longrightarrow>
      send m s = s\<lparr>logger := logger s @ [(Warning, ''actor_not_found'', [LStr (recipient m)])]\<rparr>) \<and>
   (\<forall>r. actors s (recipient m) = Some r \<longrightarrow>
      send m s = s\<lparr>objects := (objects s)(r := (objects s r)\<lparr>mailbox := mailbox (objects s r) @ [m]\<rparr>)\<rparr>)"
  by (simp add: send_def log_def update_actor_def)

theorem send_registered_or_dropped_witness:
  "actors system_AB ''ghost'' = None \<and>
   actors (send (hello ''ghost'') system_AB) = actors system_AB \<and>
   objects (send (hello ''ghost'') system_AB) = objects system_AB \<and>
   logger (send (hello ''ghost'') system_AB) = logger system_AB @ [(Warning, ''actor_not_found'', [LStr ''ghost''])] \<and>
   actors system_AB ''B'' = Some 1 \<and>
   mailbox (objects (send (hello ''B'') system_AB) 1) = [hello ''B''] \<and>
   mailbox (objects (send (hello ''B'') system_AB) 0) = []"
proof -
  have g: "actors system_AB (recipient (hello ''ghost'')) = None"
    by (simp add: eval_defs)
  have b: "actors system_AB (recipient (hello ''B'')) = Some 1"
    by (simp add: eval_defs)
  have mb: "mailbox (objects system_AB 1) = []" "mailbox (objects system_AB 0) = []"
    by (simp_all add: eval_defs)
  from send_registered_or_dropped [of system_AB "hello ''ghost''"] g
  have 1: "send (hello ''ghost'') system_AB =
      system_AB\<lparr>logger := logger system_AB @ [(Warning, ''actor_not_found'', [LStr (recipient (hello ''ghost''))])]\<rparr>"
    by blast
  from send_registered_or_dropped [of system_AB "hello ''B''"] b
  have 2: "send (hello ''B'') system_AB =
      system_AB\<lparr>objects := (objects system_AB)(1 := (objects system_AB 1)\<lparr>mailbox := mailbox (objects system_AB 1) @ [hello ''B'']\<rparr>)\<rparr>"
    by blast
  show ?thesis
    using g b mb by (simp add: 1 2) (simp add: hello_def)
qed

subsection \<open>Broadcast\<close>

lemma send_actors [simp]: "actors (send m s) = actors s"
  by (simp add: send_def log_def update_actor_def split: option.splits)

lemma broadcast_actors [simp]: "actors (broadcast m ids s) = actors s"
  by (induction ids arbitrary: s) (simp_all add: Let_def)

lemma send_objects:
  "objects (send m s) r =
     (if actors s (recipient m) = Some r
      then (objects s r)\<lparr>mailbox := mailbox (objects s r) @ [m]\<rparr> else objects s r)"
  by (simp add: send_def log_def update_actor_def split: option.splits)

lemma broadcast_Cons:
  "broadcast m (i # ids) s = broadcast m ids (send (m\<lparr>recipient := i\<rparr>) s)"
proof -
  have "\<lparr>msg_id = msg_id m, recipient = i, payload = payload m,
                message_type = message_type m, sender = sender m,
                reply_to = reply_to m, correlation_id = correlation_id m,
                timestamp = timestamp m\<rparr> = m\<lparr>recipient := i\<rparr>"
    by (cases m) simp
  then show ?thesis
    by (simp only: broadcast.simps Let_def)
qed

lemma broadcast_objects:
  "objects (broadcast m ids s) r =
     (objects s r)\<lparr>mailbox := mailbox (objects s r) @
        map (\<lambda>i. m\<lparr>recipient := i\<rparr>) (filter (\<lambda>i. actors s i = Some r) ids)\<rparr>"
proof (induction ids arbitrary: s)
  case Nil
  show ?case by simp
next
  case (Cons i ids)
  show ?case
  proof (cases "actors s i = Some r")
    case True
    then have "objects (send (m\<lparr>recipient := i\<rparr>) s) r =
        (objects s r)\<lparr>mailbox := mailbox (objects s r) @ [m\<lparr>recipient := i\<rparr>]\<rparr>"
      by (simp add: send_objects)
    with True show ?thesis
      by (simp add: broadcast_Cons Cons.IH del: broadcast.simps)
  next
    case False
    then have "objects (send (m\<lparr>recipient := i\<rparr>) s) r = objects s r"
      by (simp add: send_objects)
    with False show ?thesis
      by (simp add: broadcast_Cons Cons.IH del: broadcast.simps)
  qed
qed

lemma filter_single_replicate:
  assumes "\<forall>j\<in>set ids. P j \<longrightarrow> j = i" and "P i"
  shows "filter P ids = replicate (count_list ids i) i"
  using assms(1)
proof (induction ids)
  case Nil
  show ?case by simp
next
  case (Cons a ids)
  then have IH: "filter P ids = replicate (count_list ids i) i"
    by simp
  show ?case
  proof (cases "a = i")
    case True
    with assms(2) IH show ?thesis by simp
  next
    case False
    with Cons.prems have "\<not> P a" by auto
    with False IH show ?thesis by simp
  qed
qed

text \<open>
  Claim C8. \<open>broadcast\<close> leaves the registry as it is. Every instance gets, at the end
  of its mailbox and in the order of the list, one copy of the envelope for each
  occurrence in the list of an identity registered for it. An identity \<open>i\<close> registered
  for an instance that no other identity of the list stands for gets, for each of its
  occurrences in the list, one copy of the envelope at the end of its mailbox; the copy
  is the envelope with \<open>recipient\<close> set to \<open>i\<close> and every other field as it was.
  Unregistered identities are passed over (\<open>broadcast\<close> has no failure value) and stay
  unregistered.
\<close>

theorem broadcast_copies:
  "actors (broadcast m ids s) = actors s \<and>
   (\<forall>r. objects (broadcast m ids s) r =
      (objects s r)\<lparr>mailbox := mailbox (objects s r) @
         map (\<lambda>i. m\<lparr>recipient := i\<rparr>) (filter (\<lambda>i. actors s i = Some r) ids)\<rparr>) \<and>
   (\<forall>i r. actors s i = Some r \<and> (\<forall>j\<in>set ids. actors s j = Some r \<longrightarrow> j = i) \<longrightarrow>
      objects (broadcast m ids s) r =
        (objects s r)\<lparr>mailbox := mailbox (objects s r) @
           replicate (count_list ids i) (m\<lparr>recipient := i\<rparr>)\<rparr>) \<and>
   (\<forall>i. actors s i = None \<longrightarrow> actors (broadcast m ids s) i = None)"
proof -
  have "objects (broadcast m ids s) r =
        (objects s r)\<lparr>mailbox := mailbox (objects s r) @
           replicate (count_list ids i) (m\<lparr>recipient := i\<rparr>)\<rparr>"
    if "actors s i = Some r" "\<forall>j\<in>set ids. actors s j = Some r \<longrightarrow> j = i" for i r
    using filter_single_replicate [of ids "\<lambda>i. actors s i = Some r" i] that
    by (simp add: broadcast_objects map_replicate)
  then show ?thesis by (simp add: broadcast_objects)
qed

theorem broadcast_copies_witness:
  "actors system_AB ''A'' = Some 0 \<and> actors system_AB ''B'' = Some 1 \<and>
   actors system_AB ''ghost'' = None \<and>
   mailbox (objects (broadcast (hello ''all'') [''A'', ''B'', ''ghost''] system_AB) 0)
     = [(hello ''all'')\<lparr>recipient := ''A''\<rparr>] \<and>
   mailbox (objects (broadcast (hello ''all'') [''A'', ''B'', ''ghost''] system_AB) 1)
     = [(hello ''all'')\<lparr>recipient := ''B''\<rparr>] \<and>
   actors (broadcast (hello ''all'') [''A'', ''B'', ''ghost''] system_AB) ''ghost'' = None"
proof -
  let ?ids = "[''A'', ''B'', ''ghost'']"
  have reg: "actors system_AB ''A'' = Some 0" "actors system_AB ''B'' = Some 1"
    "actors system_AB ''ghost'' = None"
    by (simp_all add: eval_defs)
  have mb: "mailbox (objects system_AB 0) = []" "mailbox (objects system_AB 1) = []"
    by (simp_all add: eval_defs)
  have onlyA: "\<forall>j\<in>set ?ids. actors system_AB j = Some 0 \<longrightarrow> j = ''A''"
    using reg by simp
  have onlyB: "\<forall>j\<in>set ?ids. actors system_AB j = Some 1 \<longrightarrow> j = ''B''"
    using reg by simp
  note bc = broadcast_copies [of "hello ''all''" ?ids system_AB]
  from bc reg(1) onlyA
  have a: "objects (broadcast (hello ''all'') ?ids system_AB) 0 =
      (objects system_AB 0)\<lparr>mailbox := mailbox (objects system_AB 0) @
         replicate (count_list ?ids ''A'') ((hello ''all'')\<lparr>recipient := ''A''\<rparr>)\<rparr>"
    by blast
  from bc reg(2) onlyB
  have b: "objects (broadcast (hello ''all'') ?ids system_AB) 1 =
      (objects system_AB 1)\<lparr>mailbox := mailbox (objects system_AB 1) @
         replicate (count_list ?ids ''B'') ((hello ''all'')\<lparr>recipient := ''B''\<rparr>)\<rparr>"
    by blast
  from bc reg(3)
  have g: "actors (broadcast (hello ''all'') ?ids system_AB) ''ghost'' = None"
    by blast
  have a': "mailbox (objects (broadcast (hello ''all'') ?ids system_AB) 0)
      = [(hello ''all'')\<lparr>recipient := ''A''\<rparr>]"
    using a mb by (simp del: broadcast.simps)
  have b': "mailbox (objects (broadcast (hello ''all'') ?ids system_AB) 1)
      = [(hello ''all'')\<lparr>recipient := ''B''\<rparr>]"
    using b mb by (simp del: broadcast.simps)
  from reg a' b' g show ?thesis
    by blast
qed

subsection \<open>Spawning\<close>

lemma update_actor_actors [simp]: "actors (update_actor r f s) = actors s"
  by (simp add: update_actor_def)

lemma log_actors [simp]: "actors (log l ev kv s) = actors s"
  by (simp add: log_def)

lemma add_child_actors [simp]: "actors (add_child parent i s) = actors s"
  by (simp add: add_child_def split: option.splits)

text \<open>
  Claim C1, as the code has it. \<open>spawn\<close> has no failure: whether or not the identity
  of the actor is already in the registry, \<open>spawn\<close> returns that identity and makes the
  registry map it to the spawned instance, in place of an instance registered before;
  every other entry of the registry stays.
\<close>

theorem spawn_registers:
  "fst (spawn r parent s) = actor_id (objects s r) \<and>
   actors (snd (spawn r parent s)) = (actors s)(actor_id (objects s r) \<mapsto> r)"
  by (simp add: spawn_def Let_def)

text \<open>
  With \<open>"A"\<close> registered for instance 0, spawning instance 1, whose identity is
  \<open>"A"\<close> too, returns \<open>"A"\<close> and the registry now maps \<open>"A"\<close> to instance 1.
\<close>

theorem spawn_duplicate_counterexample:
  "actors system_A_twice ''A'' = Some 0 \<and>
   actor_id (objects system_A_twice 1) = ''A'' \<and>
   fst (spawn 1 None system_A_twice) = ''A'' \<and>
   actors (snd (spawn 1 None system_A_twice)) ''A'' = Some 1"
  by (simp add: system_A_twice_def eval_defs)

subsection \<open>Constructing an envelope\<close>

text \<open>
  Claim C9, as the code has it. Constructing an envelope without \<open>id\<close>, without
  \<open>recipient\<close> or without \<open>payload\<close> raises \<open>TypeError\<close>. With the three given the
  construction succeeds with these three fields as given; every other field is as given
  when it is given, and takes its default when it is left out: \<open>message_type\<close> is
  \<open>MessageType.DEFAULT\<close>, \<open>sender\<close>, \<open>reply_to\<close> and \<open>correlation_id\<close> are \<open>None\<close>,
  \<open>timestamp\<close> is the time of construction.
\<close>

theorem ActorMessage_init_defaults:
  "(arg_id a = None \<or> arg_recipient a = None \<or> arg_payload a = None \<longrightarrow>
      ActorMessage_init utcnow a = Inl TypeError) \<and>
   (\<forall>i r p. arg_id a = Some i \<and> arg_recipient a = Some r \<and> arg_payload a = Some p \<longrightarrow>
      (\<exists>m. ActorMessage_init utcnow a = Inr m \<and>
           msg_id m = i \<and> recipient m = r \<and> payload m = p \<and>
           (arg_message_type a = None \<longrightarrow> message_type m = Enum DEFAULT) \<and>
           (arg_sender a = None \<longrightarrow> sender m = None) \<and>
           (arg_reply_to a = None \<longrightarrow> reply_to m = None) \<and>
           (arg_correlation_id a = None \<longrightarrow> correlation_id m = None) \<and>
           (arg_timestamp a = None \<longrightarrow> timestamp m = utcnow) \<and>
           (\<forall>k. arg_message_type a = Some k \<longrightarrow> message_type m = k) \<and>
           (\<forall>x. arg_sender a = Some x \<longrightarrow> sender m = x) \<and>
           (\<forall>x. arg_reply_to a = Some x \<longrightarrow> reply_to m = x) \<and>
           (\<forall>x. arg_correlation_id a = Some x \<longrightarrow> correlation_id m = x) \<and>
           (\<forall>x. arg_timestamp a = Some x \<longrightarrow> timestamp m = x)))"
proof (intro conjI impI allI)
  assume "arg_id a = None \<or> arg_recipient a = None \<or> arg_payload a = None"
  then show "ActorMessage_init utcnow a = Inl TypeError"
    by (auto simp: ActorMessage_init_def split: option.splits)
next
  fix i r p
  assume "arg_id a = Some i \<and> arg_recipient a = Some r \<and> arg_payload a = Some p"
  then show "\<exists>m. ActorMessage_init utcnow a = Inr m \<and>
           msg_id m = i \<and> recipient m = r \<and> payload m = p \<and>
           (arg_message_type a = None \<longrightarrow> message_type m = Enum DEFAULT) \<and>
           (arg_sender a = None \<longrightarrow> sender m = None) \<and>
           (arg_reply_to a = None \<longrightarrow> reply_to m = None) \<and>
           (arg_correlation_id a = None \<longrightarrow> correlation_id m = None) \<and>
           (arg_timestamp a = None \<longrightarrow> timestamp m = utcnow) \<and>
           (\<forall>k. arg_message_type a = Some k \<longrightarrow> message_type m = k) \<and>
           (\<forall>x. arg_sender a = Some x \<longrightarrow> sender m = x) \<and>
           (\<forall>x. arg_reply_to a = Some x \<longrightarrow> reply_to m = x) \<and>
           (\<forall>x. arg_correlation_id a = Some x \<longrightarrow> correlation_id m = x) \<and>
           (\<forall>x. arg_timestamp a = Some x \<longrightarrow> timestamp m = x)"
    by (simp add: ActorMessage_init_def default_to_def)
qed

theorem ActorMessage_init_defaults_witness:
  "ActorMessage_init 7 (no_args\<lparr>arg_id := Some ''m1'', arg_recipient := Some ''A'',
       arg_payload := Some (PStr ''hi'')\<rparr>) =
     Inr \<lparr>msg_id = ''m1'', recipient = ''A'', payload = PStr ''hi'',
          message_type = Enum DEFAULT, sender = None, reply_to = None,
          correlation_id = None, timestamp = 7\<rparr> \<and>
   ActorMessage_init 7 (no_args\<lparr>arg_recipient := Some ''A'',
       arg_payload := Some (PStr ''hi'')\<rparr>) = Inl TypeError \<and>
   ActorMessage_init 7 (no_args\<lparr>arg_id := Some ''m1'',
       arg_payload := Some (PStr ''hi'')\<rparr>) = Inl TypeError \<and>
   ActorMessage_init 7 (no_args\<lparr>arg_id := Some ''m1'',
       arg_recipient := Some ''A''\<rparr>) = Inl TypeError"
proof -
  let ?a = "no_args\<lparr>arg_id := Some ''m1'', arg_recipient := Some ''A'',
       arg_payload := Some (PStr ''hi'')\<rparr>"
  let ?b = "no_args\<lparr>arg_recipient := Some ''A'', arg_payload := Some (PStr ''hi'')\<rparr>"
  let ?c = "no_args\<lparr>arg_id := Some ''m1'', arg_payload := Some (PStr ''hi'')\<rparr>"
  let ?d = "no_args\<lparr>arg_id := Some ''m1'', arg_recipient := Some ''A''\<rparr>"
  have given: "arg_id ?a = Some ''m1'' \<and> arg_recipient ?a = Some ''A'' \<and>
      arg_payload ?a = Some (PStr ''hi'')"
    by simp
  have left_out: "arg_message_type ?a = None" "arg_sender ?a = None" "arg_reply_to ?a = None"
    "arg_correlation_id ?a = None" "arg_timestamp ?a = None"
    by (simp_all add: no_args_def)
  have missing: "arg_id ?b = None" "arg_recipient ?c = None" "arg_payload ?d = None"
    by (simp_all add: no_args_def)
  from ActorMessage_init_defaults [of ?a 7] given left_out
  obtain m where m: "ActorMessage_init 7 ?a = Inr m" "msg_id m = ''m1''" "recipient m = ''A''"
    "payload m = PStr ''hi''" "message_type m = Enum DEFAULT" "sender m = None"
    "reply_to m = None" "correlation_id m = None" "timestamp m = 7"
    by blast
  then have "m = \<lparr>msg_id = ''m1'', recipient = ''A'', payload = PStr ''hi'',
          message_type = Enum DEFAULT, sender = None, reply_to = None,
          correlation_id = None, timestamp = 7\<rparr>"
    by (cases m) simp
  with m(1) have 1: "ActorMessage_init 7 ?a = Inr \<lparr>msg_id = ''m1'', recipient = ''A'',
          payload = PStr ''hi'', message_type = Enum DEFAULT, sender = None, reply_to = None,
          correlation_id = None, timestamp = 7\<rparr>"
    by simp
  from ActorMessage_init_defaults [of ?b 7] missing(1)
  have 2: "ActorMessage_init 7 ?b = Inl TypeError"
    by blast
  from ActorMessage_init_defaults [of ?c 7] missing(2)
  have 3: "ActorMessage_init 7 ?c = Inl TypeError"
    by blast
  from ActorMessage_init_defaults [of ?d 7] missing(3)
  have 4: "ActorMessage_init 7 ?d = Inl TypeError"
    by blast
  from 1 2 3 4 show ?thesis
    by blast
qed

text \<open>
  With \<open>recipient\<close>, \<open>payload\<close> and \<open>message_type\<close> given and no \<open>id\<close>, no
  identifier is generated: the construction raises \<open>TypeError\<close>.
\<close>

theorem ActorMessage_init_counterexample:
  "ActorMessage_init 0 (no_args\<lparr>arg_recipient := Some ''A'', arg_payload := Some (PStr ''hi''),
       arg_message_type := Some (Enum REQUEST)\<rparr>) = Inl TypeError"
  by (simp add: ActorMessage_init_def no_args_def)

subsection \<open>The child-failed envelope\<close>

lemma MessageType_value_not_child_error: "MessageType_value k \<noteq> ''child_error''"
  by (cases k) simp_all

text \<open>
  Claim C10, as the code has it. The envelope \<open>_handle_error\<close> builds has the plain
  string \<open>"child_error"\<close> as its \<open>message_type\<close>. No member of \<open>MessageType\<close> has that
  value, the field differs from every member, and \<open>to_dict\<close> fails on the envelope with
  \<open>AttributeError\<close>. \<open>CommandActor.receive\<close> and \<open>WebSearchActor.receive\<close> log it as
  an unknown message type, with their identity and the kind; \<open>SubAgent.receive\<close> logs
  nothing and raises \<open>AttributeError\<close>. For an actor with a non-empty \<open>parent_id\<close> and
  a system, \<open>_handle_error\<close> logs the error, sets the state and sends exactly this
  envelope.
\<close>

theorem child_error_kind_is_plain_string:
  "message_type (child_error_message suffix now i p err) = Str ''child_error'' \<and>
   (\<forall>k. MessageType_value k \<noteq> ''child_error'') \<and>
   (\<forall>k. message_type (child_error_message suffix now i p err) \<noteq> Enum k) \<and>
   to_dict isoformat (child_error_message suffix now i p err) = Inl AttributeError \<and>
   CommandActor_receive is_safe execute suffix' now' r (child_error_message suffix now i p err) s
     = (None, log Warning ''unknown_message_type''
                [LStr (actor_id (objects s r)), LKind (Str ''child_error'')] s) \<and>
   WebSearchActor_receive search suffix' now' r (child_error_message suffix now i p err) s
     = (None, log Warning ''unknown_message_type''
                [LStr (actor_id (objects s r)), LKind (Str ''child_error'')] s) \<and>
   SubAgent_receive system_prompt generate py_str suffix' now' r
       (child_error_message suffix now i p err) s
     = (Some (Exception_raised (quoted ''str'' @ '' object has no attribute '' @ quoted ''value'')),
        s) \<and>
   (\<forall>p. parent_id (objects s r) = Some p \<and> p \<noteq> [] \<and> system (objects s r) \<longrightarrow>
      handle_error suffix now r err s =
        send (child_error_message suffix now (actor_id (objects s r)) p err)
          (update_actor r (\<lambda>a. a\<lparr>state := ActorState_ERROR\<rparr>)
             (log Error ''actor_error'' [LStr (actor_id (objects s r)), LStr err] s)))"
  by (simp add: child_error_message_def to_dict_def CommandActor_receive_def
      WebSearchActor_receive_def SubAgent_receive_def handle_error_def Let_def update_actor_def
      log_def MessageType_value_not_child_error)

theorem child_error_kind_is_plain_string_witness:
  "parent_id (objects system_PC 1) = Some ''P'' \<and> system (objects system_PC 1) \<and>
   map message_type (mailbox (objects (handle_error ''0000abcd'' 5 1 ''boom'' system_PC) 0))
     = [Str ''child_error''] \<and>
   to_dict (\<lambda>t. ''1970-01-01T00:00:05'') (child_error_message ''0000abcd'' 5 ''C'' ''P'' ''boom'')
     = Inl AttributeError \<and>
   fst (SubAgent_receive ''You are a helpful assistant.'' answer show_payload ''0000abce'' 6 0
          (child_error_message ''0000abcd'' 5 ''C'' ''P'' ''boom'') system_PC)
     = Some (Exception_raised (quoted ''str'' @ '' object has no attribute '' @ quoted ''value''))"
proof -
  have pc: "parent_id (objects system_PC 1) = Some ''P''" "system (objects system_PC 1)"
    "actor_id (objects system_PC 1) = ''C''" "actors system_PC ''P'' = Some 0"
    "mailbox (objects system_PC 0) = []"
    by (simp_all add: eval_PC)
  note t = child_error_kind_is_plain_string [where suffix = "''0000abcd''" and now = 5
      and i = "''C''" and p = "''P''" and err = "''boom''"
      and isoformat = "\<lambda>t. ''1970-01-01T00:00:05''" and s = system_PC]
  from t [where r = 1] pc(1,2)
  have h: "handle_error ''0000abcd'' 5 1 ''boom'' system_PC =
        send (child_error_message ''0000abcd'' 5 (actor_id (objects system_PC 1)) ''P'' ''boom'')
          (update_actor 1 (\<lambda>a. a\<lparr>state := ActorState_ERROR\<rparr>)
             (log Error ''actor_error'' [LStr (actor_id (objects system_PC 1)), LStr ''boom'']
                system_PC))"
    by simp
  from t [where r = 1] have d: "to_dict (\<lambda>t. ''1970-01-01T00:00:05'')
      (child_error_message ''0000abcd'' 5 ''C'' ''P'' ''boom'') = Inl AttributeError"
    by blast
  from t [where r = 1] have k: "message_type (child_error_message ''0000abcd'' 5 ''C'' ''P'' ''boom'')
      = Str ''child_error''"
    by blast
  from t [where r = 0 and system_prompt = "''You are a helpful assistant.''" and generate = answer
      and py_str = show_payload and suffix' = "''0000abce''" and now' = 6]
  have sa: "SubAgent_receive ''You are a helpful assistant.'' answer show_payload ''0000abce'' 6 0
          (child_error_message ''0000abcd'' 5 ''C'' ''P'' ''boom'') system_PC
     = (Some (Exception_raised (quoted ''str'' @ '' object has no attribute '' @ quoted ''value'')),
        system_PC)"
    by blast
  have r: "recipient (child_error_message ''0000abcd'' 5 ''C'' ''P'' ''boom'') = ''P''"
    by (simp add: child_error_message_def)
  have "mailbox (objects (handle_error ''0000abcd'' 5 1 ''boom'' system_PC) 0)
      = [child_error_message ''0000abcd'' 5 ''C'' ''P'' ''boom'']"
    using pc(3,4,5) r unfolding h
    by (simp add: send_def update_actor_def log_def)
  with pc(1,2) d k sa show ?thesis by simp
qed

text \<open>
  \<open>SubAgent\<close> dispatches on the enumeration too, and it does not treat the envelope as
  unknown: a \<open>SubAgent\<close> \<open>"P"\<close> that is given the child-failed envelope of \<open>"C"\<close>
  raises \<open>AttributeError\<close>, and nothing is logged.
\<close>

theorem child_error_not_unknown_counterexample:
  "SubAgent_receive ''You are a helpful assistant.'' answer show_payload ''0000abce'' 6 0
       (child_error_message ''0000abcd'' 5 ''C'' ''P'' ''boom'') system_PC
     = (Some (Exception_raised (quoted ''str'' @ '' object has no attribute '' @ quoted ''value'')),
        system_PC) \<and>
   logger (snd (SubAgent_receive ''You are a helpful assistant.'' answer show_payload ''0000abce'' 6 0
       (child_error_message ''0000abcd'' 5 ''C'' ''P'' ''boom'') system_PC)) = logger system_PC"
  by (simp add: SubAgent_receive_def child_error_message_def)

subsection \<open>Replies of the concrete handlers\<close>


lemma send_result_reply:
  "reply_to m = Some to \<Longrightarrow> to \<noteq> [] \<Longrightarrow> system (objects s r) \<Longrightarrow>
   send_result hex8 utcnow r m result s =
     send (reply_message hex8 utcnow (actor_id (objects s r)) to result (correlation_id m)) s"
  by (simp add: send_result_def tell_def)

lemma reply_message_fields:
  "message_type (reply_message hex8 utcnow i to result corr) = Enum RESPONSE"
  "correlation_id (reply_message hex8 utcnow i to result corr) = corr"
  "recipient (reply_message hex8 utcnow i to result corr) = to"
  by (simp_all add: reply_message_def)

lemmas eval_A_caller = system_A_caller_def eval_defs

lemma system_A_caller_facts:
  "system (objects system_A_caller 0)" "actor_id (objects system_A_caller 0) = ''A''"
  "actors system_A_caller ''caller'' = Some 1" "mailbox (objects system_A_caller 1) = []"
  by (simp_all add: eval_A_caller)

text \<open>
  Claim C3 at the request \<open>{id: "m1", recipient: "A", reply_to: "caller"}\<close>: the
  reply the command handler sends to \<open>"caller"\<close> has kind \<open>RESPONSE\<close>, but its
  \<open>correlation_id\<close> is the \<open>correlation_id\<close> of the request (\<open>None\<close>), not its id
  \<open>"m1"\<close>; the web search handler does the same.
\<close>

theorem reply_correlation_id_not_echoed:
  "mailbox (objects (snd (CommandActor_receive always_safe echo_hi ''0000abcd'' 1 0
       request_m1 system_A_caller)) 1)
     = [reply_message ''0000abcd'' 1 ''A'' ''caller''
          (CommandResult True (CommandData ''hi'' [] 0 False) None) None] \<and>
   mailbox (objects (snd (WebSearchActor_receive one_result ''0000abcd'' 1 0
       search_m1 system_A_caller)) 1)
     = [reply_message ''0000abcd'' 1 ''A'' ''caller''
          (CommandResult True (SearchData [''https://example.org''] ''actors'' 5) None) None] \<and>
   correlation_id (reply_message ''0000abcd'' 1 ''A'' ''caller''
          (CommandResult True (CommandData ''hi'' [] 0 False) None) None) \<noteq> Some (msg_id request_m1)"
proof -
  have c: "snd (CommandActor_receive always_safe echo_hi ''0000abcd'' 1 0 request_m1 system_A_caller)
      = send (reply_message ''0000abcd'' 1 ''A'' ''caller''
          (CommandResult True (CommandData ''hi'' [] 0 False) None) None) system_A_caller"
    using system_A_caller_facts(1,2)
    by (simp add: CommandActor_receive_def handle_execute_command_def send_result_def tell_def
        request_m1_def always_safe_def echo_hi_def)
  have w: "snd (WebSearchActor_receive one_result ''0000abcd'' 1 0 search_m1 system_A_caller)
      = send (reply_message ''0000abcd'' 1 ''A'' ''caller''
          (CommandResult True (SearchData [''https://example.org''] ''actors'' 5) None) None)
          system_A_caller"
    using system_A_caller_facts(1,2)
    by (simp add: WebSearchActor_receive_def handle_web_search_def send_result_def tell_def
        search_m1_def one_result_def)
  show ?thesis
    using system_A_caller_facts(3,4) unfolding c w
    by (simp add: send_def update_actor_def reply_message_fields)
qed

subsection \<open>\<open>ask\<close>\<close>


lemma wait_for_None: "fst (wait_for None during s) = None"
  by (induction during arbitrary: s) simp_all

lemma ask_never_returns:
  "fst (ask r m during s) = Inl (if system (objects s r) then AsyncioTimeoutError else RuntimeError)"
proof (cases "wait_for None during (send m s)")
  case (Pair res s1)
  with wait_for_None [of during "send m s"] have "res = None" by simp
  with Pair show ?thesis by (simp add: ask_def)
qed

lemma wait_for_sends: "snd (wait_for None during s) = foldl (\<lambda>s m. send m s) s during"
  by (induction during arbitrary: s) simp_all

lemma system_AB_facts:
  "system (objects system_AB 0)" "actors system_AB ''A'' = Some 0"
  "actors system_AB ''B'' = Some 1" "mailbox (objects system_AB 0) = []"
  "mailbox (objects system_AB 1) = []"
  by (simp_all add: eval_defs)

text \<open>
  Claim C2 at a reply that arrives in time: \<open>"A"\<close> asks \<open>"B"\<close> with envelope
  \<open>"m1"\<close>, and before the timeout an envelope addressed to \<open>"A"\<close> with
  \<open>correlation_id = "m1"\<close> is sent. \<open>ask\<close> still raises \<open>asyncio.TimeoutError\<close>; the
  reply is in the mailbox of \<open>"A"\<close>, for its handler.
\<close>

theorem ask_times_out_despite_reply:
  "fst (ask 0 ask_m1 [reply_m1] system_AB) = Inl AsyncioTimeoutError \<and>
   mailbox (objects (snd (ask 0 ask_m1 [reply_m1] system_AB)) 0) = [reply_m1] \<and>
   correlation_id reply_m1 = Some (msg_id ask_m1) \<and> recipient reply_m1 = ''A''"
proof -
  have 1: "fst (ask 0 ask_m1 [reply_m1] system_AB) = Inl AsyncioTimeoutError"
    using system_AB_facts(1) by (simp add: ask_never_returns)
  have 2: "snd (ask 0 ask_m1 [reply_m1] system_AB) =
      log Error ''ask_timeout'' [LStr (actor_id (objects (send reply_m1 (send ask_m1 system_AB)) 0)), LStr ''m1'']
        (send reply_m1 (send ask_m1 system_AB))"
    using system_AB_facts(1) by (simp add: ask_def ask_m1_def)
  have 3: "mailbox (objects (send reply_m1 (send ask_m1 system_AB)) 0) = [reply_m1]"
    using system_AB_facts(2,3,4)
    by (simp add: send_objects) (simp add: ask_m1_def reply_m1_def)
  show ?thesis
    unfolding 1 2 using 3 by (simp add: log_def) (simp add: ask_m1_def reply_m1_def)
qed

subsection \<open>A failing handler\<close>


lemma handle_error_parent:
  assumes "parent_id (objects s r) = Some p" "p \<noteq> []" "system (objects s r)"
    "actors s p = Some pr"
  shows "state (objects (handle_error hex8 utcnow r err s) r) = ActorState_ERROR"
    and "running (objects (handle_error hex8 utcnow r err s) r) = running (objects s r)"
    and "mailbox (objects (handle_error hex8 utcnow r err s) pr) =
           mailbox (objects s pr) @ [child_error_message hex8 utcnow (actor_id (objects s r)) p err]"
    and "actors (handle_error hex8 utcnow r err s) = actors s"
  using assms
  by (simp_all add: handle_error_def Let_def send_def update_actor_def log_def
      child_error_message_def)

lemma run_iteration_handler_exception:
  assumes "running (objects s r)" "mailbox (objects s r) = m # ms"
    "receive r m (update_actor r (\<lambda>a. a\<lparr>mailbox := ms\<rparr>) s) = (Some (Exception_raised err), s2)"
  shows "run_iteration receive hex8 utcnow r s = (Looping, handle_error hex8 utcnow r err s2)"
  using assms by (simp add: run_iteration_def mailbox_get_def)

lemma run_iteration_handler_timeout:
  assumes "running (objects s r)" "mailbox (objects s r) = m # ms"
    "receive r m (update_actor r (\<lambda>a. a\<lparr>mailbox := ms\<rparr>) s) = (Some TimeoutError_raised, s2)"
  shows "run_iteration receive hex8 utcnow r s = (Looping, s2)"
  using assms by (simp add: run_iteration_def mailbox_get_def)

lemma system_PC_facts:
  "parent_id (objects system_PC 1) = Some ''P''" "system (objects system_PC 1)"
  "actor_id (objects system_PC 1) = ''C''" "actors system_PC ''P'' = Some 0"
  "actors system_PC ''C'' = Some 1" "mailbox (objects system_PC 0) = []"
  "mailbox (objects system_PC 1) = []"
  by (simp_all add: eval_PC)

lemma system_PC_busy_facts:
  "running (objects system_PC_busy 1)" "state (objects system_PC_busy 1) = RUNNING"
  "mailbox (objects system_PC_busy 1) = [hello ''C'']"
  "mailbox (objects system_PC_busy 0) = []"
  "parent_id (objects system_PC_busy 1) = Some ''P''" "system (objects system_PC_busy 1)"
  "actor_id (objects system_PC_busy 1) = ''C''" "actors system_PC_busy ''P'' = Some 0"
  using system_PC_facts
  by (simp_all add: system_PC_busy_def send_def run_start_def update_actor_def hello_def)

text \<open>
  Claim C4 at a handler that raises \<open>asyncio.TimeoutError\<close>: the loop of \<open>"C"\<close>
  goes on, but the state of \<open>"C"\<close> stays \<open>RUNNING\<close> and its parent \<open>"P"\<close> gets no
  envelope. For a handler that raises \<open>Exception("boom")\<close> the state becomes
  \<open>ERROR\<close> and \<open>"P"\<close> gets the child-failed envelope.
\<close>

theorem handler_timeout_is_swallowed:
  "run_iteration raise_timeout ''0000abcd'' 9 1 system_PC_busy
     = (Looping, update_actor 1 (\<lambda>a. a\<lparr>mailbox := []\<rparr>) system_PC_busy) \<and>
   state (objects (snd (run_iteration raise_timeout ''0000abcd'' 9 1 system_PC_busy)) 1) = RUNNING \<and>
   mailbox (objects (snd (run_iteration raise_timeout ''0000abcd'' 9 1 system_PC_busy)) 0) = [] \<and>
   state (objects (snd (run_iteration raise_exception ''0000abcd'' 9 1 system_PC_busy)) 1)
     = ActorState_ERROR \<and>
   mailbox (objects (snd (run_iteration raise_exception ''0000abcd'' 9 1 system_PC_busy)) 0)
     = [child_error_message ''0000abcd'' 9 ''C'' ''P'' ''boom'']"
proof -
  let ?s1 = "update_actor 1 (\<lambda>a. a\<lparr>mailbox := []\<rparr>) system_PC_busy"
  have t: "run_iteration raise_timeout ''0000abcd'' 9 1 system_PC_busy = (Looping, ?s1)"
    using system_PC_busy_facts(1,3)
    by (simp add: run_iteration_handler_timeout raise_timeout_def)
  have e: "run_iteration raise_exception ''0000abcd'' 9 1 system_PC_busy
      = (Looping, handle_error ''0000abcd'' 9 1 ''boom'' ?s1)"
    using system_PC_busy_facts(1,3)
    by (simp add: run_iteration_handler_exception raise_exception_def)
  have s1: "state (objects ?s1 1) = RUNNING" "mailbox (objects ?s1 0) = []"
    "parent_id (objects ?s1 1) = Some ''P''" "system (objects ?s1 1)"
    "actor_id (objects ?s1 1) = ''C''" "actors ?s1 ''P'' = Some 0"
    using system_PC_busy_facts by (simp_all add: update_actor_def)
  have "state (objects (handle_error ''0000abcd'' 9 1 ''boom'' ?s1) 1) = ActorState_ERROR"
    by (rule handle_error_parent(1) [OF s1(3) _ s1(4) s1(6)]) simp
  moreover have "mailbox (objects (handle_error ''0000abcd'' 9 1 ''boom'' ?s1) 0)
      = mailbox (objects ?s1 0) @ [child_error_message ''0000abcd'' 9 (actor_id (objects ?s1 1)) ''P'' ''boom'']"
    by (rule handle_error_parent(3) [OF s1(3) _ s1(4) s1(6)]) simp
  ultimately show ?thesis
    unfolding t e using s1(1,2,5) by simp
qed

subsection \<open>Order of delivery\<close>

text \<open>
  A step of the dispatch loop with a waiting envelope: \<open>mailbox.get()\<close> yields the oldest
  one, and the loop hands it to \<open>receive\<close>, with the mailbox already without it.
\<close>

lemma run_iteration_takes_oldest:
  assumes "running (objects s r)" and "mailbox (objects s r) = m # ms"
  shows "mailbox_get r s = (Some m, update_actor r (\<lambda>a. a\<lparr>mailbox := ms\<rparr>) s)"
    and "receive r m (update_actor r (\<lambda>a. a\<lparr>mailbox := ms\<rparr>) s) = (None, s2) \<Longrightarrow>
         run_iteration receive hex8 utcnow r s = (Looping, s2)"
  using assms by (simp_all add: run_iteration_def mailbox_get_def)




subsection \<open>Stopping\<close>




















lemma discard_child_actors [simp]: "actors (discard_child p i s) = actors s"
  by (simp add: discard_child_def update_actor_def split: option.splits)



lemma discard_child_fields [simp]:
  "system (objects (discard_child p i s) r) = system (objects s r)"
  "parent_id (objects (discard_child p i s) r) = parent_id (objects s r)"
  "running (objects (discard_child p i s) r) = running (objects s r)"
  by (simp_all add: discard_child_def update_actor_def split: option.splits)







text \<open>\<open>spawn\<close> sets the system of the instance it registers.\<close>

lemma add_child_system [simp]: "system (objects (add_child parent i s) r) = system (objects s r)"
  by (simp add: add_child_def update_actor_def split: option.splits)

lemma spawn_system:
  "system (objects (snd (spawn r parent s)) r') = (r' = r \<or> system (objects s r'))"
  by (simp add: spawn_def Let_def log_def update_actor_def)


lemma run_start_after_stop:
  "running (objects (run_start r s) r)"
  "fst (run_iteration receive suffix now r (run_start r s)) \<noteq> Finished"
  by (simp_all add: run_start_def update_actor_def run_iteration_def
      split: prod.splits option.splits raised.splits)





lemma family_spawned_actors:
  "actors family_spawned = [''P'' \<mapsto> 0, ''C'' \<mapsto> 1, ''G'' \<mapsto> 2, ''X'' \<mapsto> 3]"
  by (simp add: family_spawned_def eval_defs)

lemma family_spawned_children:
  "children (objects family_spawned 0) = [''C'']" "children (objects family_spawned 1) = [''G'']"
  "children (objects family_spawned 2) = []" "children (objects family_spawned 3) = [''X'']"
  by (simp_all add: family_spawned_def eval_defs)

lemma family_spawned_fields:
  "system (objects family_spawned 0)" "system (objects family_spawned 1)"
  "system (objects family_spawned 2)" "system (objects family_spawned 3)"
  "parent_id (objects family_spawned 1) = Some ''P''"
  by (simp_all add: family_spawned_def eval_defs)

lemma run_start_fields [simp]:
  "actors (run_start r s) = actors s"
  "children (objects (run_start r s) r') = children (objects s r')"
  "system (objects (run_start r s) r') = system (objects s r')"
  "parent_id (objects (run_start r s) r') = parent_id (objects s r')"
  "running (objects (run_start r s) r') = (r' = r \<or> running (objects s r'))"
  by (simp_all add: run_start_def update_actor_def)

lemma system_family_actors:
  "actors system_family = [''P'' \<mapsto> 0, ''C'' \<mapsto> 1, ''G'' \<mapsto> 2, ''X'' \<mapsto> 3]"
  by (simp add: system_family_def family_spawned_actors)

lemma system_family_children:
  "children (objects system_family 0) = [''C'']" "children (objects system_family 1) = [''G'']"
  "children (objects system_family 2) = []" "children (objects system_family 3) = [''X'']"
  using family_spawned_children by (simp_all add: system_family_def)

lemma system_family_fields:
  "system (objects system_family 0)" "system (objects system_family 1)"
  "system (objects system_family 2)" "system (objects system_family 3)"
  "parent_id (objects system_family 1) = Some ''P''"
  "running (objects system_family 1)" "running (objects system_family 2)"
  using family_spawned_fields by (simp_all add: system_family_def)




text \<open>
  The frames are needed: \<open>"P"\<close> has two levels of children below it, and with five
  frames instead of six \<open>stop("P")\<close> ends in \<open>RecursionError\<close>.
\<close>

lemma stop_budget_too_small:
  "stop 5 ''P'' system_family = Inl RecursionError"
proof -
  have 5: "(5::nat) = Suc (Suc (Suc (Suc (Suc 0))))" by simp
  show ?thesis
    unfolding 5
    using system_family_children system_family_fields
    by (simp add: system_family_actors update_actor_def Let_def)
qed

end
